theory Spec2Isabelle
  imports Main "HOL-Library.AList"
begin

section \<open>Python values used by App.py\<close>

text \<open>
  A Python \<open>str\<close> is a sequence of Unicode code points. The program uses the
  em dash U+2014 and the symbols U+274C and U+2705 in its literals, and \<open>str.strip\<close>
  removes Unicode whitespace, so a string is modelled as the list of its code points.
\<close>

type_synonym pystr = "nat list"

definition text_of :: "string \<Rightarrow> pystr" where
  "text_of s = map of_char s"

text \<open>The values stored in the info dictionaries: strings and booleans.\<close>

datatype pyval = PyStr pystr | PyBool bool

text \<open>
  A \<open>dict\<close> keeps its keys in insertion order; storing under a key that is already
  there keeps the key's position. That is \<open>AList.update\<close> on an association list.
\<close>

type_synonym dict = "(string \<times> pyval) list"

datatype error =
    CalledProcessError
  | FileNotFoundError
  | PermissionError
  | NotADirectoryError
  | UnicodeDecodeError
  | KeyError
  | ValueError
  | TypeError

text \<open>\<open>{**base, **d}\<close>: the items of \<open>d\<close> are stored into \<open>base\<close> in their order.\<close>

definition dict_merge :: "dict \<Rightarrow> dict \<Rightarrow> dict" where
  "dict_merge base d = fold (\<lambda>kv acc. AList.update (fst kv) (snd kv) acc) d base"

text \<open>\<open>d[k]\<close> raises \<open>KeyError\<close> for a missing key.\<close>

definition dict_item :: "dict \<Rightarrow> string \<Rightarrow> error + pyval" where
  "dict_item d k = (case map_of d k of None \<Rightarrow> Inl KeyError | Some v \<Rightarrow> Inr v)"

subsection \<open>\<open>str.isspace\<close>, \<open>str.strip()\<close> and \<open>str.split()\<close>\<close>

text \<open>The code points Python counts as whitespace.\<close>

definition isspace :: "nat \<Rightarrow> bool" where
  "isspace c =
     (c \<in> {0x09, 0x0A, 0x0B, 0x0C, 0x0D, 0x1C, 0x1D, 0x1E, 0x1F, 0x20, 0x85, 0xA0,
            0x1680, 0x2028, 0x2029, 0x202F, 0x205F, 0x3000}
      \<or> (0x2000 \<le> c \<and> c \<le> 0x200A))"

definition strip :: "pystr \<Rightarrow> pystr" where
  "strip s = rev (dropWhile isspace (rev (dropWhile isspace s)))"

text \<open>\<open>s.split()\<close>: the maximal runs of non-whitespace, \<open>cur\<close> being the run read so far.\<close>

fun split_run :: "pystr \<Rightarrow> pystr \<Rightarrow> pystr list" where
  "split_run cur [] = (if cur = [] then [] else [cur])"
| "split_run cur (c # cs) =
     (if isspace c then (if cur = [] then split_run [] cs else cur # split_run [] cs)
      else split_run (cur @ [c]) cs)"

definition split :: "pystr \<Rightarrow> pystr list" where
  "split s = split_run [] s"

text \<open>Truthiness of a value that is \<open>None\<close> or a string: \<open>None\<close> and \<open>""\<close> are false.\<close>

definition truthy :: "pystr option \<Rightarrow> bool" where
  "truthy v = (case v of None \<Rightarrow> False | Some s \<Rightarrow> s \<noteq> [])"

text \<open>\<open>v or d\<close> for such a value.\<close>

definition or_else :: "pystr option \<Rightarrow> pystr \<Rightarrow> pystr" where
  "or_else v d = (case v of None \<Rightarrow> d | Some s \<Rightarrow> if s = [] then d else s)"

section \<open>The environment: file system and external tool\<close>

text \<open>
  What the program reads from outside, as one snapshot:
  \<^item> \<open>os_stat\<close>: \<open>os.stat\<close> of a path (following symbolic links), an error or the
    kind of the entry;
  \<^item> \<open>os_listdir\<close>: \<open>os.listdir\<close>, an error or the names in the order the file
    system gives them;
  \<^item> \<open>path_join\<close>, \<open>path_basename\<close>: \<open>os.path.join\<close> and \<open>os.path.basename\<close>
    of the platform;
  \<^item> \<open>check_output\<close>: \<open>subprocess.check_output(argv, stderr=DEVNULL).decode()\<close>,
    the decoded standard output, or the exception raised (the tool is missing, it exits
    with a non-zero status, its output is not UTF-8).
\<close>

datatype ftype = Directory | NonDirectory

record env =
  os_stat :: "pystr \<Rightarrow> error + ftype"
  os_listdir :: "pystr \<Rightarrow> error + pystr list"
  path_join :: "pystr \<Rightarrow> pystr \<Rightarrow> pystr"
  path_basename :: "pystr \<Rightarrow> pystr"
  check_output :: "pystr list \<Rightarrow> error + pystr"

text \<open>\<open>os.path.exists\<close> and \<open>os.path.isdir\<close> return \<open>False\<close> when \<open>os.stat\<close> fails.\<close>

definition path_exists :: "env \<Rightarrow> pystr \<Rightarrow> bool" where
  "path_exists e p = (case os_stat e p of Inl err \<Rightarrow> False | Inr k \<Rightarrow> True)"

definition path_isdir :: "env \<Rightarrow> pystr \<Rightarrow> bool" where
  "path_isdir e p = (case os_stat e p of Inl err \<Rightarrow> False | Inr k \<Rightarrow> k = Directory)"

section \<open>Git Info Helper\<close>

text \<open>
  The inner function \<open>git(cmd)\<close> of \<open>get_git_info\<close>: the whole call is inside
  \<open>try\<close>, and the bare \<open>except\<close> returns \<open>None\<close> for every exception.
\<close>

definition git_argv :: "pystr \<Rightarrow> pystr \<Rightarrow> pystr list" where
  "git_argv path cmd = [text_of ''git'', text_of ''-C'', path] @ split cmd"

definition git :: "env \<Rightarrow> pystr \<Rightarrow> pystr \<Rightarrow> pystr option" where
  "git e path cmd =
     (case check_output e (git_argv path cmd) of
        Inl err \<Rightarrow> None
      | Inr out \<Rightarrow> Some (strip out))"

definition cmd_branch :: pystr where
  "cmd_branch = text_of ''rev-parse --abbrev-ref HEAD''"

definition cmd_remote :: pystr where
  "cmd_remote = text_of ''remote get-url origin''"

definition cmd_status :: pystr where
  "cmd_status = text_of ''status --porcelain''"

definition cmd_log :: pystr where
  "cmd_log = text_of ''log -1 --format=%cd''"

definition dot_git :: pystr where
  "dot_git = text_of ''.git''"

text \<open>The placeholder \<open>"\<emdash>"\<close>, the em dash U+2014.\<close>

definition dash :: pystr where
  "dash = [0x2014]"

definition Clean :: pystr where
  "Clean = text_of ''Clean''"

definition Dirty :: pystr where
  "Dirty = text_of ''Dirty''"

definition get_git_info :: "env \<Rightarrow> pystr \<Rightarrow> dict" where
  "get_git_info e path =
     (if \<not> path_exists e (path_join e path dot_git)
      then [(''path'', PyStr path), (''is_git'', PyBool False)]
      else
        let branch = git e path cmd_branch;
            remote = git e path cmd_remote;
            status = git e path cmd_status;
            log = git e path cmd_log;
            dirty = (if \<not> truthy status then Clean else Dirty)
        in [(''path'', PyStr path),
            (''is_git'', PyBool True),
            (''branch'', PyStr (or_else branch dash)),
            (''remote'', PyStr (or_else remote dash)),
            (''dirty'', PyStr dirty)])"

section \<open>Folder rows and the table\<close>

text \<open>
  A \<open>FolderRow\<close> is an object: \<open>rows.index(row_obj)\<close> finds it by identity, so each
  row carries the identity \<open>rid\<close> it got when it was constructed. The constructor reads
  \<open>info["path"]\<close> and \<open>info["is_git"]\<close> and raises \<open>KeyError\<close> when one is missing;
  \<open>os.path.basename\<close> raises \<open>TypeError\<close> for a path that is not a string.
\<close>

record row =
  rid :: nat
  info :: dict
  level :: nat

definition FolderRow :: "nat \<Rightarrow> dict \<Rightarrow> nat \<Rightarrow> error + row" where
  "FolderRow new_id dinfo lvl =
     (case dict_item dinfo ''path'' of
        Inl err \<Rightarrow> Inl err
      | Inr (PyBool b) \<Rightarrow> Inl TypeError
      | Inr (PyStr p) \<Rightarrow>
          (case dict_item dinfo ''is_git'' of
             Inl err \<Rightarrow> Inl err
           | Inr g \<Rightarrow> Inr \<lparr>rid = new_id, info = dinfo, level = lvl\<rparr>))"

text \<open>The indentation the constructor computes: four spaces for each level.\<close>

definition indent :: "row \<Rightarrow> pystr" where
  "indent r = replicate (level r * 4) 0x20"

text \<open>\<open>rows.index(row_obj)\<close>: the position of the object, \<open>ValueError\<close> when it is not there.\<close>

fun rows_index :: "row list \<Rightarrow> row \<Rightarrow> error + nat" where
  "rows_index [] r = Inl ValueError"
| "rows_index (x # xs) r =
     (if rid x = rid r then Inr 0
      else (case rows_index xs r of Inl err \<Rightarrow> Inl err | Inr i \<Rightarrow> Inr (Suc i)))"

text \<open>\<open>rows.insert(i, x)\<close>: an index beyond the end appends.\<close>

definition list_insert :: "nat \<Rightarrow> 'a \<Rightarrow> 'a list \<Rightarrow> 'a list" where
  "list_insert i x xs = take i xs @ [x] @ drop i xs"

section \<open>Main App\<close>

text \<open>
  The state \<open>main\<close> closes over: the table's rows, the progress bar, the status text and
  the root folder field. \<open>threads\<close> holds the bodies of the threads that were started and
  have not run yet, \<open>next_id\<close> is the identity of the next object constructed, and
  \<open>listdir_calls\<close> records, in order, the path of every \<open>os.listdir\<close> call made.
  A thread's body is run in one piece: the schedules modelled are the serial ones.
  \<open>page.update()\<close> only redraws the page and has no counterpart here.
\<close>

datatype task = RescanTask dict row | ScanTask pystr

record app =
  rows :: "row list"
  progress_visible :: bool
  status :: pystr
  root_input :: pystr
  threads :: "task list"
  next_id :: nat
  listdir_calls :: "pystr list"

subsection \<open>Folder Scanning\<close>

definition scan_top_level :: "env \<Rightarrow> pystr \<Rightarrow> error + dict list" where
  "scan_top_level e path =
     (case os_listdir e path of
        Inl err \<Rightarrow> Inl err
      | Inr names \<Rightarrow>
          Inr (map (\<lambda>f. dict_merge [(''path'', PyStr (path_join e path f))]
                          (get_git_info e (path_join e path f)))
                   (filter (\<lambda>f. path_isdir e (path_join e path f)) names)))"

text \<open>
  The loop of \<open>rescan_folder\<close>'s task: each new row is constructed with level 1 and
  inserted at \<open>insert_index\<close>, which then moves on by one. An exception ends the thread
  and leaves the rows inserted so far.
\<close>

fun insert_rows :: "dict list \<Rightarrow> nat \<Rightarrow> app \<Rightarrow> error option \<times> app" where
  "insert_rows [] insert_index st = (None, st)"
| "insert_rows (sub_info # rest) insert_index st =
     (case FolderRow (next_id st) sub_info 1 of
        Inl err \<Rightarrow> (Some err, st)
      | Inr new_row \<Rightarrow>
          insert_rows rest (insert_index + 1)
            (st\<lparr>rows := list_insert insert_index new_row (rows st),
                next_id := Suc (next_id st)\<rparr>))"

text \<open>The loop of \<open>scan_projects\<close>'s task: each new row has level 0 and is appended.\<close>

fun append_rows :: "dict list \<Rightarrow> app \<Rightarrow> error option \<times> app" where
  "append_rows [] st = (None, st)"
| "append_rows (dinfo # rest) st =
     (case FolderRow (next_id st) dinfo 0 of
        Inl err \<Rightarrow> (Some err, st)
      | Inr new_row \<Rightarrow>
          append_rows rest
            (st\<lparr>rows := rows st @ [new_row], next_id := Suc (next_id st)\<rparr>))"

definition msg_rescanning :: "pystr \<Rightarrow> pystr" where
  "msg_rescanning name = text_of ''Rescanning: '' @ name @ text_of ''...''"

definition msg_finished :: "pystr \<Rightarrow> pystr" where
  "msg_finished name = [0x2705] @ text_of '' Finished '' @ name"

definition msg_scanning :: pystr where
  "msg_scanning = text_of ''Scanning top-level projects...''"

definition msg_complete :: pystr where
  "msg_complete = [0x2705] @ text_of '' Scan complete''"

definition msg_not_found :: pystr where
  "msg_not_found = [0x274C] @ text_of '' Path not found''"

text \<open>
  The body \<open>task\<close> of \<open>rescan_folder(info, row_obj)\<close>. The result is the exception that
  ended the thread, if any, and the state it left.
\<close>

definition rescan_task :: "env \<Rightarrow> dict \<Rightarrow> row \<Rightarrow> app \<Rightarrow> error option \<times> app" where
  "rescan_task e dinfo row_obj st =
     (let st1 = st\<lparr>progress_visible := True\<rparr> in
      case dict_item dinfo ''path'' of
        Inl err \<Rightarrow> (Some err, st1)
      | Inr (PyBool b) \<Rightarrow> (Some TypeError, st1)
      | Inr (PyStr p) \<Rightarrow>
          (let st2 = st1\<lparr>status := msg_rescanning (path_basename e p)\<rparr>;
               st3 = st2\<lparr>listdir_calls := listdir_calls st2 @ [p]\<rparr> in
           case scan_top_level e p of
             Inl err \<Rightarrow> (Some err, st3)
           | Inr subfolders \<Rightarrow>
               (case rows_index (rows st3) row_obj of
                  Inl err \<Rightarrow> (Some err, st3)
                | Inr i \<Rightarrow>
                    (case insert_rows subfolders (i + 1) st3 of
                       (Some err, st4) \<Rightarrow> (Some err, st4)
                     | (None, st4) \<Rightarrow>
                         (None, st4\<lparr>progress_visible := False,
                                    status := msg_finished (path_basename e p)\<rparr>)))))"

text \<open>\<open>rescan_folder\<close> itself only starts the thread.\<close>

definition rescan_folder :: "dict \<Rightarrow> row \<Rightarrow> app \<Rightarrow> app" where
  "rescan_folder dinfo row_obj st = st\<lparr>threads := threads st @ [RescanTask dinfo row_obj]\<rparr>"

text \<open>The body \<open>task\<close> of \<open>scan_projects\<close>, for the root it closed over.\<close>

definition scan_task :: "env \<Rightarrow> pystr \<Rightarrow> app \<Rightarrow> error option \<times> app" where
  "scan_task e root st =
     (let st1 = st\<lparr>progress_visible := True, status := msg_scanning\<rparr>;
          st2 = st1\<lparr>listdir_calls := listdir_calls st1 @ [root]\<rparr> in
      case scan_top_level e root of
        Inl err \<Rightarrow> (Some err, st2)
      | Inr folders \<Rightarrow>
          (case append_rows folders st2 of
             (Some err, st3) \<Rightarrow> (Some err, st3)
           | (None, st3) \<Rightarrow>
               (None, st3\<lparr>progress_visible := False, status := msg_complete\<rparr>)))"

definition scan_projects :: "env \<Rightarrow> app \<Rightarrow> app" where
  "scan_projects e st =
     (let st1 = st\<lparr>rows := []\<rparr>;
          root = strip (root_input st1) in
      if \<not> path_exists e root
      then st1\<lparr>status := msg_not_found\<rparr>
      else st1\<lparr>threads := threads st1 @ [ScanTask root]\<rparr>)"

subsection \<open>Running the started threads\<close>

definition run_task :: "env \<Rightarrow> task \<Rightarrow> app \<Rightarrow> error option \<times> app" where
  "run_task e t st =
     (case t of
        RescanTask dinfo row_obj \<Rightarrow> rescan_task e dinfo row_obj st
      | ScanTask root \<Rightarrow> scan_task e root st)"

text \<open>
  Runs the oldest thread that has not run yet; its exception, if any, ends that thread
  only. With no thread waiting the state stays as it is.
\<close>

definition run_next :: "env \<Rightarrow> app \<Rightarrow> app" where
  "run_next e st =
     (case threads st of
        [] \<Rightarrow> st
      | t # ts \<Rightarrow> snd (run_task e t (st\<lparr>threads := ts\<rparr>)))"

text \<open>The click on a row's arrow or Rescan button: \<open>self.rescan_callback(info, self)\<close>.\<close>

definition click_rescan :: "row \<Rightarrow> app \<Rightarrow> app" where
  "click_rescan r st = rescan_folder (info r) r st"

section \<open>Notions used to state the properties\<close>

text \<open>
  The rows that one expansion constructs from the listed dictionaries: identities from
  \<open>n\<close> on, in the order of the listing, all with level \<open>lvl\<close>.
\<close>

fun new_rows :: "nat \<Rightarrow> nat \<Rightarrow> dict list \<Rightarrow> row list" where
  "new_rows n lvl [] = []"
| "new_rows n lvl (d # ds) = \<lparr>rid = n, info = d, level = lvl\<rparr> # new_rows (Suc n) lvl ds"

text \<open>The tri-state value \<open>Unknown\<close> of the specification; the program has no such value.\<close>

definition Unknown :: pystr where
  "Unknown = text_of ''Unknown''"

text \<open>What a field shows for the outcome of its query: the placeholder unless the
  query succeeded with output that is not only whitespace.\<close>

definition shown :: "error + pystr \<Rightarrow> pystr" where
  "shown r = (case r of Inl err \<Rightarrow> dash | Inr out \<Rightarrow> if strip out = [] then dash else strip out)"

definition shown_dirty :: "error + pystr \<Rightarrow> pystr" where
  "shown_dirty r = (case r of Inl err \<Rightarrow> Clean | Inr out \<Rightarrow> if strip out = [] then Clean else Dirty)"

section \<open>A sample environment\<close>

text \<open>
  A small file system with POSIX paths, used to run the definitions on concrete inputs:
  \<open>/w/a\<close> is a clean repository with a remote, \<open>/w/b\<close> has a \<open>.git\<close> file (as a
  linked working tree has), \<open>/w/c\<close> is a plain directory, \<open>/w/d\<close> is a repository
  with a modified file and no remote, and in \<open>/w/x\<close> only the branch query succeeds.
\<close>

definition sample_join :: "pystr \<Rightarrow> pystr \<Rightarrow> pystr" where
  "sample_join a b = a @ [0x2F] @ b"

definition sample_basename :: "pystr \<Rightarrow> pystr" where
  "sample_basename p = rev (takeWhile (\<lambda>c. c \<noteq> 0x2F) (rev p))"

definition sample_files :: "(pystr \<times> ftype) list" where
  "sample_files =
     [(text_of ''/w'', Directory),
      (text_of ''/w/a'', Directory),
      (text_of ''/w/a/.git'', Directory),
      (text_of ''/w/a/src'', Directory),
      (text_of ''/w/a/src/lib'', Directory),
      (text_of ''/w/a/src/main.py'', NonDirectory),
      (text_of ''/w/notes.txt'', NonDirectory),
      (text_of ''/w/b'', Directory),
      (text_of ''/w/b/.git'', NonDirectory),
      (text_of ''/w/c'', Directory),
      (text_of ''/w/d'', Directory),
      (text_of ''/w/d/.git'', Directory),
      (text_of ''/w/x'', Directory),
      (text_of ''/w/x/.git'', Directory)]"

definition sample_listing :: "(pystr \<times> pystr list) list" where
  "sample_listing =
     [(text_of ''/w'', [text_of ''a'', text_of ''notes.txt'', text_of ''b'', text_of ''c'',
                        text_of ''d'', text_of ''x'']),
      (text_of ''/w/a'', [text_of ''.git'', text_of ''src'']),
      (text_of ''/w/a/.git'', []),
      (text_of ''/w/a/src'', [text_of ''main.py'', text_of ''lib'']),
      (text_of ''/w/a/src/lib'', []),
      (text_of ''/w/b'', [text_of ''.git'']),
      (text_of ''/w/c'', []),
      (text_of ''/w/d'', [text_of ''.git'']),
      (text_of ''/w/d/.git'', []),
      (text_of ''/w/x'', [text_of ''.git'']),
      (text_of ''/w/x/.git'', [])]"

definition sample_outputs :: "(pystr list \<times> pystr) list" where
  "sample_outputs =
     [(git_argv (text_of ''/w/a'') cmd_branch, text_of ''main'' @ [0x0A]),
      (git_argv (text_of ''/w/a'') cmd_remote, text_of ''git@host:org/a.git'' @ [0x0A]),
      (git_argv (text_of ''/w/a'') cmd_status, []),
      (git_argv (text_of ''/w/a'') cmd_log, text_of ''Mon Jan 1 00:00:00 2024 +0000'' @ [0x0A]),
      (git_argv (text_of ''/w/b'') cmd_branch, text_of ''topic'' @ [0x0A]),
      (git_argv (text_of ''/w/b'') cmd_status, []),
      (git_argv (text_of ''/w/d'') cmd_branch, text_of ''dev'' @ [0x0A]),
      (git_argv (text_of ''/w/d'') cmd_status, text_of '' M f.py'' @ [0x0A]),
      (git_argv (text_of ''/w/d'') cmd_log, text_of ''Tue Jan 2 00:00:00 2024 +0000'' @ [0x0A]),
      (git_argv (text_of ''/w/x'') cmd_branch, text_of ''main'' @ [0x0A])]"

definition sample_env :: env where
  "sample_env =
     \<lparr>os_stat = (\<lambda>p. case map_of sample_files p of
                         None \<Rightarrow> Inl FileNotFoundError | Some k \<Rightarrow> Inr k),
      os_listdir = (\<lambda>p. case map_of sample_listing p of
                            None \<Rightarrow> Inl FileNotFoundError | Some ns \<Rightarrow> Inr ns),
      path_join = sample_join,
      path_basename = sample_basename,
      check_output = (\<lambda>argv. case map_of sample_outputs argv of
                                 None \<Rightarrow> Inl CalledProcessError | Some out \<Rightarrow> Inr out)\<rparr>"

text \<open>The same file system on a machine where the external tool is not installed.\<close>

definition no_tool_env :: env where
  "no_tool_env = sample_env\<lparr>check_output := (\<lambda>argv. Inl FileNotFoundError)\<rparr>"

text \<open>The table after a scan that found only \<open>/w/a\<close>, the root field holding a path
  that does not exist.\<close>

definition sample_row :: row where
  "sample_row = \<lparr>rid = 0, info = get_git_info sample_env (text_of ''/w/a''), level = 0\<rparr>"

definition sample_app :: app where
  "sample_app =
     \<lparr>rows = [sample_row],
      progress_visible = False,
      status = msg_complete,
      root_input = text_of '' /nonexistent '',
      threads = [],
      next_id = 1,
      listdir_calls = []\<rparr>"

text \<open>The sample table after the arrow of \<open>/w/a\<close> was clicked and its thread ran, and
  the rows of \<open>/w/a/.git\<close> and \<open>/w/a/src\<close> that this expansion inserted.\<close>

definition sample_expanded :: app where
  "sample_expanded = run_next sample_env (click_rescan sample_row sample_app)"

definition sample_git_row :: row where
  "sample_git_row =
     \<lparr>rid = 1,
      info = get_git_info sample_env (sample_join (text_of ''/w/a'') (text_of ''.git'')),
      level = 1\<rparr>"

definition sample_src_row :: row where
  "sample_src_row =
     \<lparr>rid = 2,
      info = get_git_info sample_env (sample_join (text_of ''/w/a'') (text_of ''src'')),
      level = 1\<rparr>"

section \<open>Evaluation lemmas\<close>

subsection \<open>The four commands and their argument vectors\<close>

lemma split_cmd_branch:
  "split cmd_branch = [text_of ''rev-parse'', text_of ''--abbrev-ref'', text_of ''HEAD'']"
  by (simp add: split_def cmd_branch_def text_of_def isspace_def)

lemma split_cmd_remote:
  "split cmd_remote = [text_of ''remote'', text_of ''get-url'', text_of ''origin'']"
  by (simp add: split_def cmd_remote_def text_of_def isspace_def)

lemma split_cmd_status:
  "split cmd_status = [text_of ''status'', text_of ''--porcelain'']"
  by (simp add: split_def cmd_status_def text_of_def isspace_def)

lemma split_cmd_log:
  "split cmd_log = [text_of ''log'', text_of ''-1'', text_of ''--format=%cd'']"
  by (simp add: split_def cmd_log_def text_of_def isspace_def)

lemmas split_cmds = split_cmd_branch split_cmd_remote split_cmd_status split_cmd_log

lemma git_argv_distinct:
  "git_argv p cmd_branch \<noteq> git_argv p cmd_remote"
  "git_argv p cmd_branch \<noteq> git_argv p cmd_status"
  "git_argv p cmd_branch \<noteq> git_argv p cmd_log"
  "git_argv p cmd_remote \<noteq> git_argv p cmd_status"
  "git_argv p cmd_remote \<noteq> git_argv p cmd_log"
  "git_argv p cmd_status \<noteq> git_argv p cmd_log"
  by (simp_all add: git_argv_def split_cmds text_of_def)

subsection \<open>The two results of the probe\<close>

lemma get_git_info_plain:
  "\<not> path_exists e (path_join e p dot_git) \<Longrightarrow>
   get_git_info e p = [(''path'', PyStr p), (''is_git'', PyBool False)]"
  by (simp add: get_git_info_def)

lemma get_git_info_repo:
  "path_exists e (path_join e p dot_git) \<Longrightarrow>
   get_git_info e p =
     [(''path'', PyStr p),
      (''is_git'', PyBool True),
      (''branch'', PyStr (shown (check_output e (git_argv p cmd_branch)))),
      (''remote'', PyStr (shown (check_output e (git_argv p cmd_remote)))),
      (''dirty'', PyStr (shown_dirty (check_output e (git_argv p cmd_status))))]"
  by (simp add: get_git_info_def git_def shown_def shown_dirty_def or_else_def truthy_def
      Let_def split: sum.splits)

lemma path_exists_check_output_upd [simp]:
  "path_exists (e\<lparr>check_output := f\<rparr>) q = path_exists e q"
  "path_join (e\<lparr>check_output := f\<rparr>) = path_join e"
  by (simp_all add: path_exists_def)

lemma state_names_distinct:
  "Clean \<noteq> Unknown" "Dirty \<noteq> Unknown" "Clean \<noteq> Dirty"
  by (simp_all add: Clean_def Dirty_def Unknown_def text_of_def)

subsection \<open>The sample environment\<close>

lemma sample_env_sel:
  "path_join sample_env = sample_join"
  "path_join no_tool_env = sample_join"
  "os_stat no_tool_env = os_stat sample_env"
  "check_output no_tool_env argv = Inl FileNotFoundError"
  by (simp_all add: sample_env_def no_tool_env_def)

lemma sample_stat:
  "os_stat sample_env (sample_join (text_of ''/w/a'') dot_git) = Inr Directory"
  "os_stat sample_env (sample_join (text_of ''/w/b'') dot_git) = Inr NonDirectory"
  "os_stat sample_env (sample_join (text_of ''/w/c'') dot_git) = Inl FileNotFoundError"
  "os_stat sample_env (sample_join (text_of ''/w/d'') dot_git) = Inr Directory"
  "os_stat sample_env (sample_join (text_of ''/w/x'') dot_git) = Inr Directory"
  "os_stat sample_env (sample_join (text_of ''/w/a/src'') dot_git) = Inl FileNotFoundError"
  by (simp_all add: sample_env_def sample_files_def sample_join_def dot_git_def text_of_def)

lemma sample_status:
  "check_output sample_env (git_argv (text_of ''/w/a'') cmd_status) = Inr []"
  "check_output sample_env (git_argv (text_of ''/w/d'') cmd_status) = Inr (text_of '' M f.py'' @ [0x0A])"
  "check_output sample_env (git_argv (text_of ''/w/x'') cmd_status) = Inl CalledProcessError"
  by (simp_all add: sample_env_def sample_outputs_def git_argv_def split_cmds text_of_def)

lemma strip_sample: "strip (text_of '' M f.py'' @ [0x0A]) \<noteq> []"
  by (simp add: strip_def text_of_def isspace_def)

section \<open>Properties of the probe\<close>

text \<open>
  C5: for a directory with no \<open>.git\<close> entry the probe returns exactly the path and
  \<open>is_git = False\<close>; the keys \<open>branch\<close>, \<open>remote\<close> and \<open>dirty\<close> are absent from
  the dictionary, with no placeholder stored for them.
\<close>

theorem non_repo_fields_absent:
  assumes "\<not> path_exists e (path_join e p dot_git)"
  shows "get_git_info e p = [(''path'', PyStr p), (''is_git'', PyBool False)]
    \<and> map_of (get_git_info e p) ''is_git'' = Some (PyBool False)
    \<and> map_of (get_git_info e p) ''branch'' = None
    \<and> map_of (get_git_info e p) ''remote'' = None
    \<and> map_of (get_git_info e p) ''dirty'' = None"
  using assms by (simp add: get_git_info_plain)

text \<open>The plain directory \<open>/w/c\<close> of the sample file system.\<close>

theorem non_repo_fields_absent_witness:
  "\<not> path_exists sample_env (path_join sample_env (text_of ''/w/c'') dot_git)
   \<and> get_git_info sample_env (text_of ''/w/c'') =
       [(''path'', PyStr (text_of ''/w/c'')), (''is_git'', PyBool False)]
   \<and> map_of (get_git_info sample_env (text_of ''/w/c'')) ''branch'' = None
   \<and> map_of (get_git_info sample_env (text_of ''/w/c'')) ''remote'' = None
   \<and> map_of (get_git_info sample_env (text_of ''/w/c'')) ''dirty'' = None"
proof -
  have h: "\<not> path_exists sample_env (path_join sample_env (text_of ''/w/c'') dot_git)"
    by (simp add: path_exists_def sample_env_sel sample_stat)
  from non_repo_fields_absent [OF h] h show ?thesis by simp
qed

text \<open>
  C1 (as the program has it): for a repository the \<open>dirty\<close> field is \<open>Clean\<close> when
  the status query failed or its output is empty once stripped of whitespace, and
  \<open>Dirty\<close> when the query succeeded with any other output; the field is never
  \<open>Unknown\<close>.
\<close>

theorem dirty_field_of_status:
  assumes "path_exists e (path_join e p dot_git)"
  shows "map_of (get_git_info e p) ''dirty'' =
           Some (PyStr (case check_output e (git_argv p cmd_status) of
                          Inl err \<Rightarrow> Clean
                        | Inr out \<Rightarrow> if strip out = [] then Clean else Dirty))
    \<and> map_of (get_git_info e p) ''dirty'' \<noteq> Some (PyStr Unknown)"
  using assms
  by (simp add: get_git_info_repo shown_dirty_def Clean_def Dirty_def Unknown_def text_of_def
      split: sum.splits)

text \<open>The repository \<open>/w/d\<close> with a modified file is \<open>Dirty\<close>.\<close>

theorem dirty_field_of_status_witness:
  "path_exists sample_env (path_join sample_env (text_of ''/w/d'') dot_git)
   \<and> map_of (get_git_info sample_env (text_of ''/w/d'')) ''dirty'' = Some (PyStr Dirty)"
proof -
  have h: "path_exists sample_env (path_join sample_env (text_of ''/w/d'') dot_git)"
    by (simp add: path_exists_def sample_env_sel sample_stat)
  from dirty_field_of_status [OF h] h show ?thesis
    by (simp add: sample_status strip_sample)
qed

text \<open>Where the tool is missing the status query of the repository \<open>/w/a\<close> fails,
  and the field reads \<open>Clean\<close>, not \<open>Unknown\<close>.\<close>

theorem failed_status_is_clean_counterexample:
  "path_exists no_tool_env (path_join no_tool_env (text_of ''/w/a'') dot_git)
   \<and> check_output no_tool_env (git_argv (text_of ''/w/a'') cmd_status) = Inl FileNotFoundError
   \<and> map_of (get_git_info no_tool_env (text_of ''/w/a'')) ''dirty'' = Some (PyStr Clean)
   \<and> map_of (get_git_info no_tool_env (text_of ''/w/a'')) ''dirty'' \<noteq> Some (PyStr Unknown)"
proof -
  have h: "path_exists no_tool_env (path_join no_tool_env (text_of ''/w/a'') dot_git)"
    by (simp add: path_exists_def sample_env_sel sample_stat)
  then show ?thesis
    by (simp add: get_git_info_repo shown_dirty_def sample_env_sel Clean_def Unknown_def text_of_def)
qed

text \<open>
  C7 (as the program has it): in a repository, making one of the four queries fail
  changes only that query's field: a failed branch or remote query stores the
  placeholder, a failed status query stores \<open>Clean\<close>, a failed log query changes
  nothing. The probe returns a dictionary in each case, and for a directory that is
  not a repository it returns the two-key dictionary.
\<close>

theorem subquery_failure_isolated:
  "(path_exists e (path_join e p dot_git) \<longrightarrow>
      get_git_info (e\<lparr>check_output := (check_output e)(git_argv p cmd_branch := Inl err)\<rparr>) p
        = AList.update ''branch'' (PyStr dash) (get_git_info e p)
    \<and> get_git_info (e\<lparr>check_output := (check_output e)(git_argv p cmd_remote := Inl err)\<rparr>) p
        = AList.update ''remote'' (PyStr dash) (get_git_info e p)
    \<and> get_git_info (e\<lparr>check_output := (check_output e)(git_argv p cmd_status := Inl err)\<rparr>) p
        = AList.update ''dirty'' (PyStr Clean) (get_git_info e p)
    \<and> get_git_info (e\<lparr>check_output := (check_output e)(git_argv p cmd_log := Inl err)\<rparr>) p
        = get_git_info e p)
   \<and> (\<not> path_exists e (path_join e p dot_git) \<longrightarrow>
      get_git_info e p = [(''path'', PyStr p), (''is_git'', PyBool False)])"
proof (intro conjI impI)
  assume r: "path_exists e (path_join e p dot_git)"
  show "get_git_info (e\<lparr>check_output := (check_output e)(git_argv p cmd_branch := Inl err)\<rparr>) p
        = AList.update ''branch'' (PyStr dash) (get_git_info e p)"
    using r git_argv_distinct [of p] by (simp add: get_git_info_repo shown_def)
  show "get_git_info (e\<lparr>check_output := (check_output e)(git_argv p cmd_remote := Inl err)\<rparr>) p
        = AList.update ''remote'' (PyStr dash) (get_git_info e p)"
    using r git_argv_distinct [of p] by (simp add: get_git_info_repo shown_def)
  show "get_git_info (e\<lparr>check_output := (check_output e)(git_argv p cmd_status := Inl err)\<rparr>) p
        = AList.update ''dirty'' (PyStr Clean) (get_git_info e p)"
    using r git_argv_distinct [of p] by (simp add: get_git_info_repo shown_dirty_def)
  show "get_git_info (e\<lparr>check_output := (check_output e)(git_argv p cmd_log := Inl err)\<rparr>) p
        = get_git_info e p"
    using r git_argv_distinct [of p] by (simp add: get_git_info_repo)
next
  assume "\<not> path_exists e (path_join e p dot_git)"
  then show "get_git_info e p = [(''path'', PyStr p), (''is_git'', PyBool False)]"
    by (rule get_git_info_plain)
qed

text \<open>The repository \<open>/w/a\<close> with a failing branch or log query, and the plain
  directory \<open>/w/c\<close>.\<close>

theorem subquery_failure_isolated_witness:
  "path_exists sample_env (path_join sample_env (text_of ''/w/a'') dot_git)
   \<and> get_git_info (sample_env\<lparr>check_output :=
         (check_output sample_env)(git_argv (text_of ''/w/a'') cmd_branch := Inl CalledProcessError)\<rparr>)
       (text_of ''/w/a'')
     = AList.update ''branch'' (PyStr dash) (get_git_info sample_env (text_of ''/w/a''))
   \<and> get_git_info (sample_env\<lparr>check_output :=
         (check_output sample_env)(git_argv (text_of ''/w/a'') cmd_log := Inl CalledProcessError)\<rparr>)
       (text_of ''/w/a'')
     = get_git_info sample_env (text_of ''/w/a'')
   \<and> \<not> path_exists sample_env (path_join sample_env (text_of ''/w/c'') dot_git)
   \<and> get_git_info sample_env (text_of ''/w/c'')
     = [(''path'', PyStr (text_of ''/w/c'')), (''is_git'', PyBool False)]"
proof -
  have a: "path_exists sample_env (path_join sample_env (text_of ''/w/a'') dot_git)"
    by (simp add: path_exists_def sample_env_sel sample_stat)
  have c: "\<not> path_exists sample_env (path_join sample_env (text_of ''/w/c'') dot_git)"
    by (simp add: path_exists_def sample_env_sel sample_stat)
  from a c
    subquery_failure_isolated [of sample_env "text_of ''/w/a''" CalledProcessError]
    subquery_failure_isolated [of sample_env "text_of ''/w/c''" CalledProcessError]
  show ?thesis by blast
qed

text \<open>In \<open>/w/x\<close> the status query fails: the \<open>dirty\<close> field is present and is not
  \<open>Unknown\<close>.\<close>

theorem failed_status_not_unknown_counterexample:
  "path_exists sample_env (path_join sample_env (text_of ''/w/x'') dot_git)
   \<and> check_output sample_env (git_argv (text_of ''/w/x'') cmd_status) = Inl CalledProcessError
   \<and> map_of (get_git_info sample_env (text_of ''/w/x'')) ''dirty'' \<noteq> None
   \<and> map_of (get_git_info sample_env (text_of ''/w/x'')) ''dirty'' \<noteq> Some (PyStr Unknown)"
proof -
  have h: "path_exists sample_env (path_join sample_env (text_of ''/w/x'') dot_git)"
    by (simp add: path_exists_def sample_env_sel sample_stat)
  then show ?thesis
    by (simp add: get_git_info_repo shown_dirty_def sample_status state_names_distinct)
qed

text \<open>
  C8 (as the program has it): the probe reports a repository exactly when an entry
  named \<open>.git\<close>, a directory or not, exists directly beneath the path. Nothing but
  that one path is consulted, so a \<open>.git\<close> in a parent directory plays no part.
\<close>

theorem is_git_iff_marker_exists:
  "map_of (get_git_info e p) ''is_git'' = Some (PyBool (path_exists e (path_join e p dot_git)))"
  by (cases "path_exists e (path_join e p dot_git)")
     (simp_all add: get_git_info_repo get_git_info_plain)

text \<open>\<open>/w/a\<close> is a repository; its subdirectory \<open>/w/a/src\<close> is not.\<close>

theorem is_git_iff_marker_exists_witness:
  "path_exists sample_env (path_join sample_env (text_of ''/w/a'') dot_git)
   \<and> map_of (get_git_info sample_env (text_of ''/w/a'')) ''is_git'' = Some (PyBool True)
   \<and> map_of (get_git_info sample_env (text_of ''/w/a/src'')) ''is_git'' = Some (PyBool False)"
proof -
  have a: "path_exists sample_env (path_join sample_env (text_of ''/w/a'') dot_git)"
    by (simp add: path_exists_def sample_env_sel sample_stat)
  have s: "\<not> path_exists sample_env (path_join sample_env (text_of ''/w/a/src'') dot_git)"
    by (simp add: path_exists_def sample_env_sel sample_stat)
  from a s is_git_iff_marker_exists [of sample_env "text_of ''/w/a''"]
    is_git_iff_marker_exists [of sample_env "text_of ''/w/a/src''"]
  show ?thesis by simp
qed

text \<open>\<open>/w/b/.git\<close> is a file, not a directory, and \<open>/w/b\<close> is reported as a
  repository.\<close>

theorem git_file_marker_counterexample:
  "\<not> path_isdir sample_env (path_join sample_env (text_of ''/w/b'') dot_git)
   \<and> map_of (get_git_info sample_env (text_of ''/w/b'')) ''is_git'' = Some (PyBool True)"
proof -
  have h: "path_exists sample_env (path_join sample_env (text_of ''/w/b'') dot_git)"
    by (simp add: path_exists_def sample_env_sel sample_stat)
  have d: "\<not> path_isdir sample_env (path_join sample_env (text_of ''/w/b'') dot_git)"
    by (simp add: path_isdir_def sample_env_sel sample_stat)
  from h d show ?thesis by (simp add: get_git_info_repo)
qed

text \<open>
  C10: the probe never raises. Every exception of a query is turned into \<open>None\<close> by
  the handler of \<open>git\<close>; a marker that cannot be read (\<open>os.stat\<close> fails) gives the
  result for a directory that is not a repository; and for every environment and path
  the result is one of the two dictionaries, never an error.
\<close>

theorem get_git_info_total:
  "(check_output e (git_argv p cmd) = Inl err \<longrightarrow> git e p cmd = None)
   \<and> (os_stat e (path_join e p dot_git) = Inl err' \<longrightarrow>
        get_git_info e p = [(''path'', PyStr p), (''is_git'', PyBool False)])
   \<and> (get_git_info e p = [(''path'', PyStr p), (''is_git'', PyBool False)]
      \<or> (\<exists>b r d. get_git_info e p =
            [(''path'', PyStr p), (''is_git'', PyBool True), (''branch'', PyStr b),
             (''remote'', PyStr r), (''dirty'', PyStr d)]))"
proof (intro conjI impI)
  assume "check_output e (git_argv p cmd) = Inl err"
  then show "git e p cmd = None" by (simp add: git_def)
next
  assume "os_stat e (path_join e p dot_git) = Inl err'"
  then have "\<not> path_exists e (path_join e p dot_git)" by (simp add: path_exists_def)
  then show "get_git_info e p = [(''path'', PyStr p), (''is_git'', PyBool False)]"
    by (rule get_git_info_plain)
next
  show "get_git_info e p = [(''path'', PyStr p), (''is_git'', PyBool False)]
      \<or> (\<exists>b r d. get_git_info e p =
            [(''path'', PyStr p), (''is_git'', PyBool True), (''branch'', PyStr b),
             (''remote'', PyStr r), (''dirty'', PyStr d)])"
    by (cases "path_exists e (path_join e p dot_git)")
       (simp_all add: get_git_info_repo get_git_info_plain)
qed

text \<open>The environment without the tool, at the repository \<open>/w/a\<close> and at \<open>/w/c\<close>.\<close>

theorem get_git_info_total_witness:
  "check_output no_tool_env (git_argv (text_of ''/w/a'') cmd_branch) = Inl FileNotFoundError
   \<and> git no_tool_env (text_of ''/w/a'') cmd_branch = None
   \<and> os_stat no_tool_env (path_join no_tool_env (text_of ''/w/c'') dot_git) = Inl FileNotFoundError
   \<and> get_git_info no_tool_env (text_of ''/w/c'') =
       [(''path'', PyStr (text_of ''/w/c'')), (''is_git'', PyBool False)]"
proof -
  have a: "check_output no_tool_env (git_argv (text_of ''/w/a'') cmd_branch) = Inl FileNotFoundError"
    by (simp add: sample_env_sel)
  have c: "os_stat no_tool_env (path_join no_tool_env (text_of ''/w/c'') dot_git) = Inl FileNotFoundError"
    by (simp add: sample_env_sel sample_stat)
  from a c
    get_git_info_total [of no_tool_env "text_of ''/w/a''" cmd_branch FileNotFoundError FileNotFoundError]
    get_git_info_total [of no_tool_env "text_of ''/w/c''" cmd_branch FileNotFoundError FileNotFoundError]
  show ?thesis by blast
qed

section \<open>Properties of the lister\<close>

lemma dict_merge_path:
  "dict_merge [(''path'', PyStr p)] (get_git_info e p) = get_git_info e p"
  by (cases "path_exists e (path_join e p dot_git)")
     (simp_all add: get_git_info_repo get_git_info_plain dict_merge_def)

lemma scan_top_level_eq:
  "os_listdir e path = Inr names \<Longrightarrow>
   scan_top_level e path =
     Inr (map (\<lambda>f. get_git_info e (path_join e path f))
              (filter (\<lambda>f. path_isdir e (path_join e path f)) names))"
  by (simp add: scan_top_level_def dict_merge_path)

lemma sample_listdir:
  "os_listdir sample_env (text_of ''/w'') =
     Inr [text_of ''a'', text_of ''notes.txt'', text_of ''b'', text_of ''c'',
          text_of ''d'', text_of ''x'']"
  "os_listdir sample_env (text_of ''/w/a'') = Inr [text_of ''.git'', text_of ''src'']"
  "os_listdir sample_env (sample_join (text_of ''/w/a'') (text_of ''src''))
     = Inr [text_of ''main.py'', text_of ''lib'']"
  by (simp_all add: sample_env_def sample_listing_def sample_join_def text_of_def)

lemma sample_isdir:
  "path_isdir sample_env (sample_join (text_of ''/w'') (text_of ''a''))"
  "\<not> path_isdir sample_env (sample_join (text_of ''/w'') (text_of ''notes.txt''))"
  "path_isdir sample_env (sample_join (text_of ''/w'') (text_of ''b''))"
  "path_isdir sample_env (sample_join (text_of ''/w'') (text_of ''c''))"
  "path_isdir sample_env (sample_join (text_of ''/w'') (text_of ''d''))"
  "path_isdir sample_env (sample_join (text_of ''/w'') (text_of ''x''))"
  "path_isdir sample_env (sample_join (text_of ''/w/a'') (text_of ''.git''))"
  "path_isdir sample_env (sample_join (text_of ''/w/a'') (text_of ''src''))"
  "\<not> path_isdir sample_env
       (sample_join (sample_join (text_of ''/w/a'') (text_of ''src'')) (text_of ''main.py''))"
  "path_isdir sample_env
       (sample_join (sample_join (text_of ''/w/a'') (text_of ''src'')) (text_of ''lib''))"
  by (simp_all add: path_isdir_def sample_env_def sample_files_def sample_join_def text_of_def)

text \<open>
  C6: for a directory that \<open>os.listdir\<close> can read, \<open>scan_top_level\<close> returns one
  dictionary for each listed name that is a directory, in the order of the listing and
  with nothing else: the dictionary is the probe's result for that child, and its
  \<open>path\<close> is the child's path. No child is dropped and none is repeated.
\<close>

theorem scan_top_level_children:
  assumes "os_listdir e path = Inr names"
  shows "scan_top_level e path =
           Inr (map (\<lambda>f. get_git_info e (path_join e path f))
                    (filter (\<lambda>f. path_isdir e (path_join e path f)) names))
    \<and> map (\<lambda>d. map_of d ''path'')
          (map (\<lambda>f. get_git_info e (path_join e path f))
               (filter (\<lambda>f. path_isdir e (path_join e path f)) names))
        = map (\<lambda>f. Some (PyStr (path_join e path f)))
              (filter (\<lambda>f. path_isdir e (path_join e path f)) names)"
proof
  show "scan_top_level e path =
           Inr (map (\<lambda>f. get_git_info e (path_join e path f))
                    (filter (\<lambda>f. path_isdir e (path_join e path f)) names))"
    using assms by (rule scan_top_level_eq)
next
  have "map_of (get_git_info e q) ''path'' = Some (PyStr q)" for q
    by (cases "path_exists e (path_join e q dot_git)")
       (simp_all add: get_git_info_repo get_git_info_plain)
  then show "map (\<lambda>d. map_of d ''path'')
          (map (\<lambda>f. get_git_info e (path_join e path f))
               (filter (\<lambda>f. path_isdir e (path_join e path f)) names))
        = map (\<lambda>f. Some (PyStr (path_join e path f)))
              (filter (\<lambda>f. path_isdir e (path_join e path f)) names)"
    by simp
qed

text \<open>The listing of \<open>/w\<close>: the file \<open>notes.txt\<close> is left out, the five directories stay
  in order.\<close>

theorem scan_top_level_children_witness:
  "os_listdir sample_env (text_of ''/w'') =
     Inr [text_of ''a'', text_of ''notes.txt'', text_of ''b'', text_of ''c'',
          text_of ''d'', text_of ''x'']
   \<and> scan_top_level sample_env (text_of ''/w'') =
       Inr (map (\<lambda>f. get_git_info sample_env (sample_join (text_of ''/w'') f))
                [text_of ''a'', text_of ''b'', text_of ''c'', text_of ''d'', text_of ''x''])"
  using scan_top_level_children [OF sample_listdir(1)]
  by (simp add: sample_listdir sample_env_sel sample_isdir)

section \<open>Properties of the table\<close>

subsection \<open>Rows of an expansion\<close>

lemma FolderRow_get_git_info:
  "FolderRow n (get_git_info e q) l = Inr \<lparr>rid = n, info = get_git_info e q, level = l\<rparr>"
  by (cases "path_exists e (path_join e q dot_git)")
     (simp_all add: get_git_info_repo get_git_info_plain FolderRow_def dict_item_def)

lemma dict_item_path_get_git_info:
  "dict_item (get_git_info e q) ''path'' = Inr (PyStr q)"
  by (cases "path_exists e (path_join e q dot_git)")
     (simp_all add: get_git_info_repo get_git_info_plain dict_item_def)

lemma scan_top_level_rows:
  assumes "scan_top_level e p = Inr subs" and "d \<in> set subs"
  shows "FolderRow n d l = Inr \<lparr>rid = n, info = d, level = l\<rparr>"
proof (cases "os_listdir e p")
  case (Inl err)
  with assms show ?thesis by (simp add: scan_top_level_def)
next
  case (Inr names)
  from scan_top_level_eq [OF Inr] assms obtain f where "d = get_git_info e (path_join e p f)"
    by auto
  then show ?thesis by (simp add: FolderRow_get_git_info)
qed

lemma length_new_rows [simp]: "length (new_rows n l ds) = length ds"
  by (induction ds arbitrary: n) simp_all

lemma insert_rows_ok:
  assumes "\<And>d n. d \<in> set ds \<Longrightarrow> FolderRow n d 1 = Inr \<lparr>rid = n, info = d, level = 1\<rparr>"
    and "i \<le> length (rows st)"
  shows "insert_rows ds i st =
           (None, st\<lparr>rows := take i (rows st) @ new_rows (next_id st) 1 ds @ drop i (rows st),
                      next_id := next_id st + length ds\<rparr>)"
  using assms
proof (induction ds arbitrary: i st)
  case Nil
  then show ?case by simp
next
  case (Cons d ds)
  have row: "FolderRow (next_id st) d 1 = Inr \<lparr>rid = next_id st, info = d, level = 1\<rparr>"
    using Cons.prems(1) by simp
  let ?st = "st\<lparr>rows := list_insert i \<lparr>rid = next_id st, info = d, level = 1\<rparr> (rows st),
                  next_id := Suc (next_id st)\<rparr>"
  have le: "i + 1 \<le> length (rows ?st)"
    using Cons.prems(2) by (simp add: list_insert_def)
  have ih: "insert_rows ds (i + 1) ?st =
           (None, ?st\<lparr>rows := take (i + 1) (rows ?st) @ new_rows (next_id ?st) 1 ds
                                @ drop (i + 1) (rows ?st),
                      next_id := next_id ?st + length ds\<rparr>)"
    using Cons.prems(1) by (intro Cons.IH [OF _ le]) simp
  have t: "take (i + 1) (rows ?st) = take i (rows st) @ [\<lparr>rid = next_id st, info = d, level = 1\<rparr>]"
    using Cons.prems(2) by (simp add: list_insert_def)
  have dr: "drop (i + 1) (rows ?st) = drop i (rows st)"
    using Cons.prems(2) by (simp add: list_insert_def)
  show ?case
    unfolding insert_rows.simps row sum.case ih t dr by simp
qed

lemma rows_index_Inr:
  "rows_index xs r = Inr i \<Longrightarrow> i < length xs \<and> rid (xs ! i) = rid r"
proof (induction xs arbitrary: i)
  case Nil
  then show ?case by simp
next
  case (Cons x xs)
  then show ?case by (cases i) (auto split: if_splits sum.splits)
qed

lemma rescan_task_ok:
  assumes "dict_item dinfo ''path'' = Inr (PyStr p)"
    and "scan_top_level e p = Inr subs"
    and "rows_index (rows st) r = Inr i"
  shows "rescan_task e dinfo r st =
     (None, st\<lparr>rows := take (Suc i) (rows st) @ new_rows (next_id st) 1 subs
                          @ drop (Suc i) (rows st),
                next_id := next_id st + length subs,
                listdir_calls := listdir_calls st @ [p],
                progress_visible := False,
                status := msg_finished (path_basename e p)\<rparr>)"
proof -
  let ?st3 = "st\<lparr>progress_visible := True, status := msg_rescanning (path_basename e p),
                  listdir_calls := listdir_calls st @ [p]\<rparr>"
  have i: "Suc i \<le> length (rows ?st3)"
    using rows_index_Inr [OF assms(3)] by simp
  have ins: "insert_rows subs (Suc i) ?st3 =
     (None, ?st3\<lparr>rows := take (Suc i) (rows ?st3) @ new_rows (next_id ?st3) 1 subs
                            @ drop (Suc i) (rows ?st3),
                  next_id := next_id ?st3 + length subs\<rparr>)"
    by (rule insert_rows_ok [OF scan_top_level_rows [OF assms(2)] i])
  show ?thesis
    using assms ins by (simp add: rescan_task_def Let_def)
qed

lemma insert_rows_keeps:
  "threads (snd (insert_rows ds i st)) = threads st
   \<and> listdir_calls (snd (insert_rows ds i st)) = listdir_calls st"
  by (induction ds arbitrary: i st) (simp_all split: sum.splits)

lemma rescan_task_calls:
  assumes "dict_item dinfo ''path'' = Inr (PyStr p)"
  shows "listdir_calls (snd (rescan_task e dinfo r st)) = listdir_calls st @ [p]
    \<and> threads (snd (rescan_task e dinfo r st)) = threads st"
proof -
  have k: "threads (snd (insert_rows ds i s)) = threads s" 
     "listdir_calls (snd (insert_rows ds i s)) = listdir_calls s" for ds i s
    using insert_rows_keeps [of ds i s] by simp_all
  have "listdir_calls b = listdir_calls s \<and> threads b = threads s"
    if "insert_rows ds i s = (a, b)" for ds i s a b
    using k [of ds i s] that by simp
  then show ?thesis
    using assms
    by (auto simp add: rescan_task_def Let_def split: sum.splits option.splits prod.splits)
qed

subsection \<open>Running a started thread\<close>

lemma run_next_rescan:
  assumes "threads st = RescanTask d r # ts" and "dict_item d ''path'' = Inr (PyStr p)"
  shows "threads (run_next e st) = ts"
    and "listdir_calls (run_next e st) = listdir_calls st @ [p]"
  using assms rescan_task_calls [OF assms(2), of e r "st\<lparr>threads := ts\<rparr>"]
  by (simp_all add: run_next_def run_task_def)

lemma rescan_twice:
  assumes "dict_item (info r) ''path'' = Inr (PyStr p)" and "threads st = []"
  shows "listdir_calls (run_next e (run_next e (click_rescan r (click_rescan r st))))
           = listdir_calls st @ [p, p]"
proof -
  let ?st2 = "click_rescan r (click_rescan r st)"
  have t2: "threads ?st2 = RescanTask (info r) r # [RescanTask (info r) r]"
    using assms(2) by (simp add: click_rescan_def rescan_folder_def)
  have c2: "listdir_calls ?st2 = listdir_calls st"
    by (simp add: click_rescan_def rescan_folder_def)
  note a = run_next_rescan [OF t2 assms(1), of e]
  note b = run_next_rescan [OF a(1) assms(1), of e]
  show ?thesis using a(2) b(2) c2 by simp
qed

lemma click_run:
  assumes "threads st = []"
    and "dict_item (info r) ''path'' = Inr (PyStr p)"
    and "scan_top_level e p = Inr subs"
    and "rows_index (rows st) r = Inr i"
  shows "rows (run_next e (click_rescan r st)) =
           take (Suc i) (rows st) @ new_rows (next_id st) 1 subs @ drop (Suc i) (rows st)"
    and "next_id (run_next e (click_rescan r st)) = next_id st + length subs"
    and "threads (run_next e (click_rescan r st)) = []"
    and "listdir_calls (run_next e (click_rescan r st)) = listdir_calls st @ [p]"
proof -
  have "rows_index (rows (st\<lparr>threads := []\<rparr>)) r = Inr i"
    using assms(4) by simp
  from rescan_task_ok [OF assms(2) assms(3) this]
  have "run_next e (click_rescan r st) =
      st\<lparr>threads := [],
         rows := take (Suc i) (rows st) @ new_rows (next_id st) 1 subs @ drop (Suc i) (rows st),
         next_id := next_id st + length subs,
         listdir_calls := listdir_calls st @ [p],
         progress_visible := False,
         status := msg_finished (path_basename e p)\<rparr>"
    using assms(1) by (simp add: run_next_def click_rescan_def rescan_folder_def run_task_def)
  then show
    "rows (run_next e (click_rescan r st)) =
           take (Suc i) (rows st) @ new_rows (next_id st) 1 subs @ drop (Suc i) (rows st)"
    "next_id (run_next e (click_rescan r st)) = next_id st + length subs"
    "threads (run_next e (click_rescan r st)) = []"
    "listdir_calls (run_next e (click_rescan r st)) = listdir_calls st @ [p]"
    by simp_all
qed

subsection \<open>The sample table\<close>

lemma sample_row_path:
  "dict_item (info sample_row) ''path'' = Inr (PyStr (text_of ''/w/a''))"
  by (simp add: sample_row_def dict_item_path_get_git_info)

lemma sample_app_sel:
  "threads sample_app = []" "rows sample_app = [sample_row]" "next_id sample_app = 1"
  "listdir_calls sample_app = []"
  by (simp_all add: sample_app_def)

lemma sample_root_missing:
  "\<not> path_exists sample_env (strip (root_input sample_app))"
  by (simp add: path_exists_def sample_app_def strip_def isspace_def text_of_def
      sample_env_def sample_files_def)

lemma sample_scan:
  "scan_top_level sample_env (text_of ''/w/a'') =
     Inr [get_git_info sample_env (sample_join (text_of ''/w/a'') (text_of ''.git'')),
          get_git_info sample_env (sample_join (text_of ''/w/a'') (text_of ''src''))]"
  "scan_top_level sample_env (sample_join (text_of ''/w/a'') (text_of ''src'')) =
     Inr [get_git_info sample_env
            (sample_join (sample_join (text_of ''/w/a'') (text_of ''src'')) (text_of ''lib''))]"
  by (simp_all add: scan_top_level_eq [OF sample_listdir(2)] scan_top_level_eq [OF sample_listdir(3)]
      sample_env_sel sample_isdir)

lemma sample_index:
  "rows_index [sample_row] sample_row = Inr 0"
  "rows_index [sample_row, sample_git_row, sample_src_row] sample_row = Inr 0"
  "rows_index [sample_row, sample_git_row, sample_src_row] sample_src_row = Inr 2"
  by (simp_all add: sample_row_def sample_git_row_def sample_src_row_def)

lemma sample_expanded_sel:
  "rows sample_expanded = [sample_row, sample_git_row, sample_src_row]"
  "next_id sample_expanded = 3"
  "threads sample_expanded = []"
  "listdir_calls sample_expanded = [text_of ''/w/a'']"
proof -
  have i: "rows_index (rows sample_app) sample_row = Inr 0"
    by (simp only: sample_app_sel sample_index)
  note c = click_run [OF sample_app_sel(1) sample_row_path sample_scan(1) i]
  show "rows sample_expanded = [sample_row, sample_git_row, sample_src_row]"
    using c(1) by (simp add: sample_expanded_def sample_app_sel sample_git_row_def
        sample_src_row_def numeral_2_eq_2)
  show "next_id sample_expanded = 3"
    using c(2) by (simp add: sample_expanded_def sample_app_sel)
  show "threads sample_expanded = []"
    using c(3) by (simp add: sample_expanded_def)
  show "listdir_calls sample_expanded = [text_of ''/w/a'']"
    using c(4) by (simp add: sample_expanded_def sample_app_sel)
qed

subsection \<open>Expand requests\<close>

text \<open>
  C2 (as the program has it): every expand request starts a thread of its own, also
  while an expand of the same node is still waiting to run, and every such thread makes
  its own \<open>os.listdir\<close> call. Two requests on one node give two threads and two
  listing calls of the node's path; nothing is coalesced.
\<close>

theorem expand_requests_not_coalesced:
  assumes "dict_item (info r) ''path'' = Inr (PyStr p)" and "threads st = []"
  shows "threads (click_rescan r st) = [RescanTask (info r) r]
    \<and> threads (click_rescan r (click_rescan r st))
        = [RescanTask (info r) r, RescanTask (info r) r]
    \<and> listdir_calls (run_next e (run_next e (click_rescan r (click_rescan r st))))
        = listdir_calls st @ [p, p]"
  using assms rescan_twice [OF assms, of e]
  by (simp add: click_rescan_def rescan_folder_def)

text \<open>Two clicks on the row of \<open>/w/a\<close> before either thread runs.\<close>

theorem expand_requests_not_coalesced_witness:
  "dict_item (info sample_row) ''path'' = Inr (PyStr (text_of ''/w/a''))
   \<and> threads sample_app = []
   \<and> threads (click_rescan sample_row (click_rescan sample_row sample_app))
       = [RescanTask (info sample_row) sample_row, RescanTask (info sample_row) sample_row]
   \<and> listdir_calls (run_next sample_env (run_next sample_env
         (click_rescan sample_row (click_rescan sample_row sample_app))))
       = listdir_calls sample_app @ [text_of ''/w/a'', text_of ''/w/a'']"
  using expand_requests_not_coalesced [OF sample_row_path sample_app_sel(1), of sample_env]
    sample_row_path sample_app_sel(1)
  by simp

text \<open>The second request on \<open>/w/a\<close>, made while the first is in flight, starts a
  second thread, and \<open>/w/a\<close> is listed twice.\<close>

theorem second_expand_lists_again_counterexample:
  "length (threads (click_rescan sample_row (click_rescan sample_row sample_app))) = 2
   \<and> listdir_calls (run_next sample_env (run_next sample_env
         (click_rescan sample_row (click_rescan sample_row sample_app))))
       = [text_of ''/w/a'', text_of ''/w/a'']"
  using rescan_twice [OF sample_row_path sample_app_sel(1), of sample_env]
  by (simp add: sample_app_sel click_rescan_def rescan_folder_def)

text \<open>
  C3 (as the program has it): expanding a node removes no row. The rows made from the
  new listing are inserted directly after the node's row; every row that was in the
  table before, the rows of an earlier expansion of the same node among them, is
  still there, after the new ones.
\<close>

theorem rescan_keeps_earlier_rows:
  assumes "dict_item dinfo ''path'' = Inr (PyStr p)"
    and "scan_top_level e p = Inr subs"
    and "rows_index (rows st) r = Inr i"
  shows "rows (snd (rescan_task e dinfo r st)) =
           take (Suc i) (rows st) @ new_rows (next_id st) 1 subs @ drop (Suc i) (rows st)
    \<and> set (rows st) \<subseteq> set (rows (snd (rescan_task e dinfo r st)))
    \<and> length (rows (snd (rescan_task e dinfo r st))) = length (rows st) + length subs"
proof -
  have eq: "rows (snd (rescan_task e dinfo r st)) =
           take (Suc i) (rows st) @ new_rows (next_id st) 1 subs @ drop (Suc i) (rows st)"
    by (simp add: rescan_task_ok [OF assms])
  have "set (rows st) = set (take (Suc i) (rows st)) \<union> set (drop (Suc i) (rows st))"
    by (metis append_take_drop_id set_append)
  then have sub: "set (rows st) \<subseteq> set (rows (snd (rescan_task e dinfo r st)))"
    unfolding eq by auto
  have "length (take (Suc i) (rows st)) + length (drop (Suc i) (rows st)) = length (rows st)"
    by (metis append_take_drop_id length_append)
  then have len: "length (rows (snd (rescan_task e dinfo r st))) = length (rows st) + length subs"
    unfolding eq by simp
  from eq sub len show ?thesis by blast
qed

text \<open>Expanding \<open>/w/a\<close> a second time: three rows before, five after.\<close>

theorem rescan_keeps_earlier_rows_witness:
  "dict_item (info sample_row) ''path'' = Inr (PyStr (text_of ''/w/a''))
   \<and> rows_index (rows sample_expanded) sample_row = Inr 0
   \<and> rows sample_expanded = [sample_row, sample_git_row, sample_src_row]
   \<and> set [sample_row, sample_git_row, sample_src_row]
       \<subseteq> set (rows (snd (rescan_task sample_env (info sample_row) sample_row sample_expanded)))
   \<and> length (rows (snd (rescan_task sample_env (info sample_row) sample_row sample_expanded))) = 5"
proof -
  have i: "rows_index (rows sample_expanded) sample_row = Inr 0"
    by (simp only: sample_expanded_sel sample_index)
  from rescan_keeps_earlier_rows [OF sample_row_path sample_scan(1) i] i sample_row_path
  show ?thesis by (simp add: sample_expanded_sel)
qed

text \<open>After the second expansion of \<open>/w/a\<close> the two rows of the first expansion
  (identities 1 and 2) follow the two new ones (identities 3 and 4).\<close>

theorem rescan_duplicates_children_counterexample:
  "rows sample_expanded = [sample_row, sample_git_row, sample_src_row]
   \<and> map rid (rows (run_next sample_env (click_rescan sample_row sample_expanded)))
       = [0, 3, 4, 1, 2]
   \<and> rows (run_next sample_env (click_rescan sample_row sample_expanded)) ! 3 = sample_git_row
   \<and> rows (run_next sample_env (click_rescan sample_row sample_expanded)) ! 4 = sample_src_row"
proof -
  have i: "rows_index (rows sample_expanded) sample_row = Inr 0"
    by (simp only: sample_expanded_sel sample_index)
  note c = click_run(1) [OF sample_expanded_sel(3) sample_row_path sample_scan(1) i]
  show ?thesis
    unfolding c
    by (simp add: sample_expanded_sel sample_row_def sample_git_row_def sample_src_row_def
        numeral_3_eq_3)
qed

text \<open>
  C9 (the program at a nested node): the row of \<open>/w/a/src\<close> has level 1. Expanding it
  inserts the row of \<open>/w/a/src/lib\<close> directly after it, and that row has level 1 as
  well, not 2: \<open>rescan_folder\<close> constructs every row with level 1.
\<close>

theorem nested_expand_level:
  "rows sample_expanded ! 2 = sample_src_row
   \<and> level sample_src_row = 1
   \<and> map rid (rows (run_next sample_env (click_rescan sample_src_row sample_expanded)))
       = [0, 1, 2, 3]
   \<and> map level (rows (run_next sample_env (click_rescan sample_src_row sample_expanded)))
       = [0, 1, 1, 1]"
proof -
  have i: "rows_index (rows sample_expanded) sample_src_row = Inr 2"
    by (simp only: sample_expanded_sel sample_index)
  have p: "dict_item (info sample_src_row) ''path''
             = Inr (PyStr (sample_join (text_of ''/w/a'') (text_of ''src'')))"
    by (simp add: sample_src_row_def dict_item_path_get_git_info)
  note c = click_run(1) [OF sample_expanded_sel(3) p sample_scan(2) i]
  show ?thesis
    unfolding c
    by (simp add: sample_expanded_sel sample_row_def sample_git_row_def sample_src_row_def
        numeral_3_eq_3)
qed

subsection \<open>Scan Projects\<close>

text \<open>
  C4 (as the program has it): when the root path does not exist, \<open>scan_projects\<close>
  shows the failure in the status text at once and starts no thread; the table has been
  emptied before the check, so its rows are gone.
\<close>

theorem scan_projects_missing_root:
  assumes "\<not> path_exists e (strip (root_input st))"
  shows "scan_projects e st = st\<lparr>rows := [], status := msg_not_found\<rparr>
    \<and> status (scan_projects e st) = msg_not_found
    \<and> threads (scan_projects e st) = threads st
    \<and> rows (scan_projects e st) = []"
  using assms by (simp add: scan_projects_def Let_def)

text \<open>The sample table, whose root field holds a path that does not exist.\<close>

theorem scan_projects_missing_root_witness:
  "\<not> path_exists sample_env (strip (root_input sample_app))
   \<and> status (scan_projects sample_env sample_app) = msg_not_found
   \<and> threads (scan_projects sample_env sample_app) = threads sample_app
   \<and> rows (scan_projects sample_env sample_app) = []"
  using scan_projects_missing_root [OF sample_root_missing] sample_root_missing
  by simp

text \<open>The row of the earlier scan is removed although the root was not found.\<close>

theorem missing_root_clears_table_counterexample:
  "\<not> path_exists sample_env (strip (root_input sample_app))
   \<and> rows sample_app = [sample_row]
   \<and> rows (scan_projects sample_env sample_app) \<noteq> rows sample_app"
  using sample_root_missing
  by (simp add: scan_projects_def Let_def sample_app_sel)

end
